theory Spec2Isabelle
  imports Main
begin

section \<open>Python values as the agent sees them\<close>

text \<open>
  A Python string is a sequence of code points. \<open>Chr c\<close> is the code point of the
  character \<open>c\<close> (0 to 255), \<open>Wide n\<close> is the code point \<open>256 + n\<close>. \<open>U\<close> embeds a
  string literal.
\<close>

datatype pychar = Chr char | Wide nat

type_synonym pystr = "pychar list"

definition U :: "string \<Rightarrow> pystr" where
  "U s = map Chr s"

text \<open>
  A Python float: a signed zero or finite number \<open>(-1)^s * m * 2^e\<close>, an infinity, or
  not-a-number.
\<close>

datatype pyfloat = Float bool nat int | Infinity bool | NaN

text \<open>
  The agent (\<^verbatim>\<open>custom_agent/agent.py\<close>) passes around whatever \<^verbatim>\<open>json.loads\<close> produced:
  \<^verbatim>\<open>None\<close>, booleans, integers, floats, strings, lists and dictionaries. A dictionary
  is an association list in insertion order; \<^verbatim>\<open>d.get(k)\<close> is \<open>map_of\<close>.
\<close>

datatype json =
    JNull
  | JBool bool
  | JInt int
  | JFloat pyfloat
  | JStr pystr
  | JArr "json list"
  | JObj "(pystr \<times> json) list"

text \<open>
  Python truthiness, \<^verbatim>\<open>bool(x)\<close>. A float is falsy exactly when it is a zero.
\<close>

fun truthy_float :: "pyfloat \<Rightarrow> bool" where
  "truthy_float (Float s m e) = (m \<noteq> 0)"
| "truthy_float (Infinity s) = True"
| "truthy_float NaN = True"

fun truthy :: "json \<Rightarrow> bool" where
  "truthy JNull = False"
| "truthy (JBool b) = b"
| "truthy (JInt n) = (n \<noteq> 0)"
| "truthy (JFloat x) = truthy_float x"
| "truthy (JStr s) = (s \<noteq> [])"
| "truthy (JArr xs) = (xs \<noteq> [])"
| "truthy (JObj kvs) = (kvs \<noteq> [])"

text \<open>Exceptions are values; the string is what \<^verbatim>\<open>str(e)\<close> gives.\<close>

datatype exn =
    ValueError pystr
  | AttributeError pystr
  | OtherError pystr

fun str_exn :: "exn \<Rightarrow> pystr" where
  "str_exn (ValueError m) = m"
| "str_exn (AttributeError m) = m"
| "str_exn (OtherError m) = m"

fun type_name :: "json \<Rightarrow> pystr" where
  "type_name JNull = U ''NoneType''"
| "type_name (JBool b) = U ''bool''"
| "type_name (JInt n) = U ''int''"
| "type_name (JFloat x) = U ''float''"
| "type_name (JStr s) = U ''str''"
| "type_name (JArr xs) = U ''list''"
| "type_name (JObj kvs) = U ''dict''"

text \<open>
  \<^verbatim>\<open>r.get(key, default)\<close>: only a dictionary has the method; on any other value the
  attribute lookup raises \<^verbatim>\<open>AttributeError\<close>.
\<close>

definition no_attribute :: "json \<Rightarrow> pystr \<Rightarrow> exn" where
  "no_attribute v a =
     AttributeError ([Chr (CHR 0x27)] @ type_name v @ [Chr (CHR 0x27)] @ U '' object has no attribute ''
                     @ [Chr (CHR 0x27)] @ a @ [Chr (CHR 0x27)])"

fun py_get :: "json \<Rightarrow> pystr \<Rightarrow> json \<Rightarrow> exn + json" where
  "py_get (JObj kvs) k d = Inr (case map_of kvs k of Some v \<Rightarrow> v | None \<Rightarrow> d)"
| "py_get v k d = Inl (no_attribute v (U ''get''))"

section \<open>The JSON library\<close>

text \<open>
  \<^verbatim>\<open>json.loads\<close> and \<^verbatim>\<open>json.dumps\<close> belong to the standard library, not to the agent:
  they are parameters. \<open>loads\<close> is \<^verbatim>\<open>json.loads(text)\<close>, which returns the parsed value
  or raises (malformed text, nesting beyond the recursion limit); \<open>dumps\<close> is
  \<^verbatim>\<open>json.dumps(obj, ensure_ascii=False)\<close>, as \<^verbatim>\<open>_safe_slice\<close> calls it.
\<close>

record json_lib =
  loads :: "pystr \<Rightarrow> exn + json"
  dumps :: "json \<Rightarrow> exn + pystr"

section \<open>Configuration, network and clock\<close>

text \<open>
  The module-level configuration is read from the environment once; it is a parameter
  here. \<^verbatim>\<open>CF_ENDPOINTS\<close> is a dictionary literal with five fixed keys, hence a record.
\<close>

record endpoints =
  calendar :: pystr
  gmail :: pystr
  drive :: pystr
  decision :: pystr
  data_pipeline :: pystr

record config =
  PROJECT_ID :: pystr
  CF_ENDPOINTS :: endpoints
  BACKEND_BASE :: pystr
  SHARED_SECRET :: pystr

text \<open>
  One outbound POST, and what \<^verbatim>\<open>urlopen\<close>, \<^verbatim>\<open>read\<close> and \<^verbatim>\<open>decode\<close> made of it:
  a decoded body, an \<^verbatim>\<open>HTTPError\<close> (code, reason), a \<^verbatim>\<open>URLError\<close> (its text), or any
  other exception (a read timeout, a body that is not UTF-8), which \<^verbatim>\<open>_post_json\<close> does
  not catch. \<open>body\<close> is the payload whose serialisation is sent.
\<close>

record request =
  url :: pystr
  headers_of :: "(pystr \<times> pystr) list"
  body :: json

datatype outcome =
    Body pystr
  | HTTPError int pystr
  | URLError pystr
  | Raised exn

type_synonym call_log = "(request \<times> outcome) list"

text \<open>The network answers a request, possibly depending on the calls made before.\<close>

type_synonym net = "call_log \<Rightarrow> request \<Rightarrow> outcome"

record clock =
  utcnow_iso :: pystr
  utcnow_plus_iso :: "int \<Rightarrow> pystr"

section \<open>Utilities\<close>

definition headers :: "config \<Rightarrow> pystr \<Rightarrow> (pystr \<times> pystr) list" where
  "headers cfg trace_id =
     (let h = [(U ''Content-Type'', U ''application/json''),
               (U ''X-Trace-Id'', trace_id),
               (U ''X-Project'', PROJECT_ID cfg)]
      in if SHARED_SECRET cfg \<noteq> [] then h @ [(U ''X-Shared-Secret'', SHARED_SECRET cfg)] else h)"

text \<open>
  What \<^verbatim>\<open>_post_json\<close> returns or raises for each outcome of the call: the parsed body,
  the wrapper around a body on which \<^verbatim>\<open>json.loads\<close> raises, the inline failure values, or
  the exception it lets through.
\<close>

definition decode :: "json_lib \<Rightarrow> outcome \<Rightarrow> exn + json" where
  "decode lib out =
     (case out of
        Body text \<Rightarrow>
          (case loads lib text of
             Inr v \<Rightarrow> Inr v
           | Inl e \<Rightarrow> Inr (JObj [(U ''success'', JBool True), (U ''text'', JStr text)]))
      | HTTPError code reason \<Rightarrow>
          Inr (JObj [(U ''success'', JBool False), (U ''status'', JInt code), (U ''error'', JStr reason)])
      | URLError msg \<Rightarrow> Inr (JObj [(U ''success'', JBool False), (U ''error'', JStr msg)])
      | Raised e \<Rightarrow> Inl e)"

definition mk_request :: "config \<Rightarrow> pystr \<Rightarrow> json \<Rightarrow> pystr \<Rightarrow> request" where
  "mk_request cfg u payload trace_id = \<lparr>url = u, headers_of = headers cfg trace_id, body = payload\<rparr>"

definition post_json ::
  "json_lib \<Rightarrow> config \<Rightarrow> net \<Rightarrow> pystr \<Rightarrow> json \<Rightarrow> pystr \<Rightarrow> call_log
     \<Rightarrow> (exn + json) \<times> call_log" where
  "post_json lib cfg net u payload trace_id log =
     (let req = mk_request cfg u payload trace_id;
          out = net log req
      in (decode lib out, log @ [(req, out)]))"

definition ok :: "json \<Rightarrow> exn + bool" where
  "ok r =
     (if \<not> truthy r then Inr False
      else case py_get r (U ''success'') (JBool True) of
             Inl e \<Rightarrow> Inl e
           | Inr v \<Rightarrow> Inr (v \<noteq> JBool False))"

section \<open>Helpers\<close>

text \<open>
  \<^verbatim>\<open>_safe_slice\<close>: the object is serialised; when the serialisation is longer than
  the limit, its first \<open>limit\<close> characters are parsed again; an exception of either call
  is caught and gives back the object. \<^verbatim>\<open>_safe_str\<close> cuts the input text at 2000 characters. The two clock
  readings are parameters.
\<close>

definition safe_slice :: "json_lib \<Rightarrow> json \<Rightarrow> nat \<Rightarrow> json" where
  "safe_slice lib obj limit =
     (case dumps lib obj of
        Inl e \<Rightarrow> obj
      | Inr text \<Rightarrow>
          if length text > limit
          then (case loads lib (take limit text) of Inr v \<Rightarrow> v | Inl e \<Rightarrow> obj)
          else obj)"

definition safe_str :: "pystr \<Rightarrow> pystr" where
  "safe_str x = take 2000 x"

definition iso_now :: "clock \<Rightarrow> pystr" where
  "iso_now clk = utcnow_iso clk @ U ''Z''"

definition iso_in_days :: "clock \<Rightarrow> int \<Rightarrow> pystr" where
  "iso_in_days clk days = utcnow_plus_iso clk days @ U ''Z''"

text \<open>
  \<^verbatim>\<open>str.lower\<close> on the letters that matter here: the ASCII capitals are folded, every
  other character is left as it is. Python folds capitals outside ASCII as well, and
  none of them to a single letter of \<^verbatim>\<open>high\<close> or \<^verbatim>\<open>urgent\<close>, so that the comparison with
  these two words comes out the same.
\<close>

definition lower_char :: "pychar \<Rightarrow> pychar" where
  "lower_char c =
     (case map_of (zip (U ''ABCDEFGHIJKLMNOPQRSTUVWXYZ'') (U ''abcdefghijklmnopqrstuvwxyz'')) c of
        Some l \<Rightarrow> l
      | None \<Rightarrow> c)"

definition lower :: "pystr \<Rightarrow> pystr" where
  "lower s = map lower_char s"

section \<open>The next-action heuristic\<close>

text \<open>
  \<^verbatim>\<open>_suggest_next_action\<close>: any exception inside is caught and gives \<open>None\<close>.
  \<open>urgency_action\<close> is the body from the read of \<^verbatim>\<open>urgencyLevel\<close> on, applied to the
  value chosen by \<^verbatim>\<open>decision_resp.get("result") or decision_resp\<close>.
\<close>

definition urgency_action :: "clock \<Rightarrow> json \<Rightarrow> (pystr \<times> json) option" where
  "urgency_action clk result =
     (case py_get (if truthy result then result else JObj []) (U ''urgencyLevel'') (JStr []) of
        Inl e \<Rightarrow> None
      | Inr urgency \<Rightarrow>
          (case urgency of
             JStr s \<Rightarrow>
               if lower s \<in> {(U ''high''), (U ''urgent'')}
               then Some (U ''calendar.get_events'',
                          JObj [(U ''timeMin'', JStr (iso_now clk)),
                                (U ''timeMax'', JStr (iso_in_days clk 7)),
                                (U ''maxResults'', JInt 50)])
               else Some (U ''gmail.search_emails'',
                          JObj [(U ''query'', JStr (U ''meeting'')), (U ''maxResults'', JInt 20)])
           | _ \<Rightarrow> Some (U ''gmail.search_emails'',
                         JObj [(U ''query'', JStr (U ''meeting'')), (U ''maxResults'', JInt 20)])))"

definition suggest_next_action :: "clock \<Rightarrow> json \<Rightarrow> (pystr \<times> json) option" where
  "suggest_next_action clk decision_resp =
     (case py_get decision_resp (U ''result'') JNull of
        Inl e \<Rightarrow> None
      | Inr r \<Rightarrow> urgency_action clk (if truthy r then r else decision_resp))"

section \<open>Dispatch\<close>

text \<open>\<^verbatim>\<open>s.startswith(p)\<close>.\<close>

definition startswith :: "pystr \<Rightarrow> pystr \<Rightarrow> bool" where
  "startswith s p = (take (length p) s = p)"

text \<open>
  The body for a tool endpoint, \<^verbatim>\<open>{"action": task.split(".", 1)[1], "parameters": params}\<close>.
  Indexing the split raises when the task has no dot.
\<close>

definition tool_body :: "pystr \<Rightarrow> json \<Rightarrow> exn + json" where
  "tool_body task params =
     (case dropWhile (\<lambda>c. c \<noteq> Chr CHR ''.'') task of
        [] \<Rightarrow> Inl (OtherError (U ''list index out of range''))
      | d # action \<Rightarrow> Inr (JObj [(U ''action'', JStr action), (U ''parameters'', params)]))"

definition post_tool ::
  "json_lib \<Rightarrow> config \<Rightarrow> net \<Rightarrow> pystr \<Rightarrow> pystr \<Rightarrow> json \<Rightarrow> pystr \<Rightarrow> call_log
     \<Rightarrow> (exn + json) \<times> call_log" where
  "post_tool lib cfg net u task params trace_id log =
     (case tool_body task params of
        Inl e \<Rightarrow> (Inl e, log)
      | Inr payload \<Rightarrow> post_json lib cfg net u payload trace_id log)"

definition execute_task ::
  "json_lib \<Rightarrow> config \<Rightarrow> net \<Rightarrow> pystr \<Rightarrow> json \<Rightarrow> pystr \<Rightarrow> call_log
     \<Rightarrow> (exn + json) \<times> call_log" where
  "execute_task lib cfg net task params trace_id log =
     (if startswith task (U ''calendar.'') then
        post_tool lib cfg net (calendar (CF_ENDPOINTS cfg)) task params trace_id log
      else if startswith task (U ''gmail.'') then
        post_tool lib cfg net (gmail (CF_ENDPOINTS cfg)) task params trace_id log
      else if startswith task (U ''drive.'') then
        post_tool lib cfg net (drive (CF_ENDPOINTS cfg)) task params trace_id log
      else if startswith task (U ''decision.'') then
        post_tool lib cfg net (decision (CF_ENDPOINTS cfg)) task params trace_id log
      else if startswith task (U ''data_pipeline.'') then
        post_tool lib cfg net (data_pipeline (CF_ENDPOINTS cfg)) task params trace_id log
      else if task = U ''backend.minutes'' then
        post_json lib cfg net (BACKEND_BASE cfg @ (U ''/api/agent/minutes/generate'')) params trace_id log
      else if task = U ''backend.mindmap'' then
        post_json lib cfg net (BACKEND_BASE cfg @ (U ''/api/speech/generate-mindmap'')) params trace_id log
      else (Inl (ValueError (U ''Unknown task: '' @ task)), log))"

section \<open>The orchestrator\<close>

record tool_call =
  task :: pystr
  params :: json
  result :: json

text \<open>
  The message of an error record is a Python string: the text of an exception, or
  \<^verbatim>\<open>str(decision_resp)\<close>, kept as the value it prints.
\<close>

datatype message = Text pystr | Repr json

record error_record =
  err_task :: pystr
  message :: message

record envelope =
  traceId :: pystr
  input :: pystr
  routedTask :: pystr
  toolCalls :: "tool_call list"
  output' :: json
  errors :: "error_record list"

text \<open>
  \<^verbatim>\<open>SmartMeetCustomAgent.query\<close>, in the order of the source. The trace id comes from
  \<^verbatim>\<open>uuid4\<close> and is a parameter. \<open>explicit_block\<close> is the \<^verbatim>\<open>if task:\<close> block: it
  either returns the envelope at once or leaves the errors gathered so far.
  \<open>automatic\<close> is the rest of the body, from the decision call to the last return.
\<close>

definition explicit_block ::
  "json_lib \<Rightarrow> config \<Rightarrow> net \<Rightarrow> pystr \<Rightarrow> pystr \<Rightarrow> pystr \<Rightarrow> json \<Rightarrow> call_log
     \<Rightarrow> envelope option \<times> error_record list \<times> call_log" where
  "explicit_block lib cfg net trace_id inp routed_task ps log0 =
     (if routed_task \<noteq> [] then
        (case execute_task lib cfg net routed_task ps trace_id log0 of
           (Inr res, log1) \<Rightarrow>
             (Some \<lparr>traceId = trace_id, input = inp, routedTask = routed_task,
                    toolCalls = [\<lparr>task = routed_task, params = ps, result = safe_slice lib res 6000\<rparr>],
                    output' = res, errors = []\<rparr>,
              [], log1)
         | (Inl e, log1) \<Rightarrow>
             (None, [\<lparr>err_task = routed_task, message = Text (str_exn e)\<rparr>], log1))
      else (None, [], log0))"

definition analysis_payload :: "pystr \<Rightarrow> json" where
  "analysis_payload inp =
     JObj [(U ''action'', JStr (U ''analyze_situation'')), (U ''parameters'', JObj [(U ''context'', JStr inp)])]"

definition decision_call :: "json_lib \<Rightarrow> pystr \<Rightarrow> json \<Rightarrow> tool_call" where
  "decision_call lib inp decision_resp =
     \<lparr>task = U ''decision.analyze_situation'',
      params = JObj [(U ''context'', JStr (safe_str inp))],
      result = safe_slice lib decision_resp 6000\<rparr>"

definition automatic ::
  "json_lib \<Rightarrow> config \<Rightarrow> net \<Rightarrow> clock \<Rightarrow> pystr \<Rightarrow> pystr \<Rightarrow> pystr \<Rightarrow> error_record list \<Rightarrow> call_log
     \<Rightarrow> (exn + envelope) \<times> call_log" where
  "automatic lib cfg net clk trace_id inp routed_task errs log1 =
     (case post_json lib cfg net (decision (CF_ENDPOINTS cfg)) (analysis_payload inp) trace_id log1 of
        (Inl e, log2) \<Rightarrow> (Inl e, log2)
      | (Inr decision_resp, log2) \<Rightarrow>
          (let tool_calls = [decision_call lib inp decision_resp]
           in case ok decision_resp of
                Inl e \<Rightarrow> (Inl e, log2)
              | Inr False \<Rightarrow>
                  (Inr \<lparr>traceId = trace_id, input = inp, routedTask = routed_task,
                        toolCalls = tool_calls,
                        output' = JObj [(U ''note'', JStr (U ''decision analysis failed''))],
                        errors = errs @ [\<lparr>err_task = U ''decision.analyze_situation'',
                                          message = Repr decision_resp\<rparr>]\<rparr>,
                   log2)
              | Inr True \<Rightarrow>
                  (case suggest_next_action clk decision_resp of
                     None \<Rightarrow>
                       (Inr \<lparr>traceId = trace_id, input = inp, routedTask = [],
                             toolCalls = tool_calls, output' = decision_resp,
                             errors = errs\<rparr>,
                        log2)
                   | Some (action_task, action_params) \<Rightarrow>
                       (case execute_task lib cfg net action_task action_params trace_id log2 of
                          (Inr action_result, log3) \<Rightarrow>
                            (Inr \<lparr>traceId = trace_id, input = inp,
                                  routedTask = (if routed_task \<noteq> [] then routed_task else action_task),
                                  toolCalls = tool_calls @
                                    [\<lparr>task = action_task, params = action_params,
                                      result = safe_slice lib action_result 6000\<rparr>],
                                  output' = decision_resp, errors = errs\<rparr>,
                             log3)
                        | (Inl e, log3) \<Rightarrow>
                            (Inr \<lparr>traceId = trace_id, input = inp,
                                  routedTask = (if routed_task \<noteq> [] then routed_task else action_task),
                                  toolCalls = tool_calls, output' = decision_resp,
                                  errors = errs @ [\<lparr>err_task = action_task,
                                                    message = Text (str_exn e)\<rparr>]\<rparr>,
                             log3)))))"

definition params_or_empty :: "json option \<Rightarrow> json" where
  "params_or_empty parameters =
     (case parameters of None \<Rightarrow> JObj [] | Some p \<Rightarrow> if truthy p then p else JObj [])"

definition task_or_empty :: "pystr option \<Rightarrow> pystr" where
  "task_or_empty task_opt = (case task_opt of None \<Rightarrow> [] | Some t \<Rightarrow> t)"

definition query ::
  "json_lib \<Rightarrow> config \<Rightarrow> net \<Rightarrow> clock \<Rightarrow> pystr \<Rightarrow> pystr \<Rightarrow> pystr option \<Rightarrow> json option \<Rightarrow> call_log
     \<Rightarrow> (exn + envelope) \<times> call_log" where
  "query lib cfg net clk trace_id inp task_opt parameters log0 =
     (let ps = params_or_empty parameters;
          routed_task = task_or_empty task_opt
      in case explicit_block lib cfg net trace_id inp routed_task ps log0 of
           (Some env, errs, log1) \<Rightarrow> (Inr env, log1)
         | (None, errs, log1) \<Rightarrow> automatic lib cfg net clk trace_id inp routed_task errs log1)"

section \<open>The task grammar and the shipped configuration\<close>

text \<open>
  The recognised task strings: a namespace, a dot and an action, for the five tool
  namespaces, or one of the two backend shortcuts.
\<close>

definition namespaces :: "pystr list" where
  "namespaces = [U ''calendar'', U ''gmail'', U ''drive'', U ''decision'', U ''data_pipeline'']"

definition recognised :: "pystr \<Rightarrow> bool" where
  "recognised t =
     ((\<exists>ns \<in> set namespaces. startswith t (ns @ U ''.''))
      \<or> t = U ''backend.minutes'' \<or> t = U ''backend.mindmap'')"

text \<open>\<^verbatim>\<open>CF_ENDPOINTS[ns]\<close> for a namespace name.\<close>

definition namespace_endpoint :: "config \<Rightarrow> pystr \<Rightarrow> pystr" where
  "namespace_endpoint cfg ns =
     (if ns = U ''calendar'' then calendar (CF_ENDPOINTS cfg)
      else if ns = U ''gmail'' then gmail (CF_ENDPOINTS cfg)
      else if ns = U ''drive'' then drive (CF_ENDPOINTS cfg)
      else if ns = U ''decision'' then decision (CF_ENDPOINTS cfg)
      else data_pipeline (CF_ENDPOINTS cfg))"

text \<open>The defaults hard-coded in the module, with no shared secret set.\<close>

definition default_config :: config where
  "default_config =
     \<lparr>PROJECT_ID = U ''smartmeet-470807'',
      CF_ENDPOINTS =
        \<lparr>calendar = U ''https://asia-northeast1-smartmeet-470807.cloudfunctions.net/calendarTool'',
         gmail = U ''https://asia-northeast1-smartmeet-470807.cloudfunctions.net/gmailTool'',
         drive = U ''https://asia-northeast1-smartmeet-470807.cloudfunctions.net/driveTool'',
         decision = U ''https://asia-northeast1-smartmeet-470807.cloudfunctions.net/decisionTool'',
         data_pipeline = U ''https://asia-northeast1-smartmeet-470807.cloudfunctions.net/dataPipeline''\<rparr>,
      BACKEND_BASE = U ''https://smartmeet-backend-184930122798.asia-northeast1.run.app'',
      SHARED_SECRET = []\<rparr>"

text \<open>A network that gives every request the same outcome.\<close>

definition net_const :: "outcome \<Rightarrow> net" where
  "net_const out = (\<lambda>log req. out)"


text \<open>
  A stand-in for the library in examples: it knows the texts of a table, with the values
  they parse to and are serialised from, and raises on everything else.
\<close>

definition lib_table :: "(pystr \<times> json) list \<Rightarrow> json_lib" where
  "lib_table tbl =
     \<lparr>loads = (\<lambda>text. case map_of tbl text of
                        Some v \<Rightarrow> Inr v
                      | None \<Rightarrow> Inl (ValueError (U ''Expecting value''))),
      dumps = (\<lambda>obj. case map_of (map (\<lambda>p. (snd p, fst p)) tbl) obj of
                       Some text \<Rightarrow> Inr text
                     | None \<Rightarrow> Inl (OtherError (U ''not in the table'')))\<rparr>"

text \<open>
  The table of the examples: each text with the value Python's \<^verbatim>\<open>json\<close> module parses it
  to and serialises it from. The other texts of the examples (\<^verbatim>\<open>fine\<close>, the empty text)
  are not JSON. \<open>quoted s\<close> is \<open>s\<close> between double quotes.
\<close>

definition quoted :: "string \<Rightarrow> pystr" where
  "quoted s = [Chr (CHR 0x22)] @ U s @ [Chr (CHR 0x22)]"

definition json_fixture :: json_lib where
  "json_fixture = lib_table
     [(U ''[1]'', JArr [JInt 1]),
      (U ''{'' @ quoted ''success'' @ U '': true, '' @ quoted ''text'' @ U '': '' @ quoted ''fine'' @ U ''}'',
       JObj [(U ''success'', JBool True), (U ''text'', JStr (U ''fine''))]),
      (U ''{'' @ quoted ''success'' @ U '': false, '' @ quoted ''status'' @ U '': 503, ''
         @ quoted ''error'' @ U '': '' @ quoted ''Service Unavailable'' @ U ''}'',
       JObj [(U ''success'', JBool False), (U ''status'', JInt 503),
             (U ''error'', JStr (U ''Service Unavailable''))]),
      (U ''{'' @ quoted ''success'' @ U '': false, '' @ quoted ''error'' @ U '': ''
         @ quoted ''<urlopen error timed out>'' @ U ''}'',
       JObj [(U ''success'', JBool False), (U ''error'', JStr (U ''<urlopen error timed out>''))])]"

definition fixed_clock :: clock where
  "fixed_clock = \<lparr>utcnow_iso = U ''2025-01-01T00:00:00'', utcnow_plus_iso = (\<lambda>d. U ''2025-01-08T00:00:00'')\<rparr>"

section \<open>Vocabulary of the properties\<close>

text \<open>The two follow-up pairs of the heuristic, and the output of a failed analysis.\<close>

definition note_output :: json where
  "note_output = JObj [(U ''note'', JStr (U ''decision analysis failed''))]"

definition calendar_action :: "clock \<Rightarrow> pystr \<times> json" where
  "calendar_action clk =
     (U ''calendar.get_events'',
      JObj [(U ''timeMin'', JStr (iso_now clk)), (U ''timeMax'', JStr (iso_in_days clk 7)),
            (U ''maxResults'', JInt 50)])"

definition gmail_action :: "pystr \<times> json" where
  "gmail_action = (U ''gmail.search_emails'', JObj [(U ''query'', JStr (U ''meeting'')), (U ''maxResults'', JInt 20)])"

text \<open>
  Two strings are equal up to case; an urgency value counts as urgent when it is a
  string equal up to case to \<^verbatim>\<open>high\<close> or \<^verbatim>\<open>urgent\<close>.
\<close>

definition caseless_eq :: "pystr \<Rightarrow> pystr \<Rightarrow> bool" where
  "caseless_eq a b = (lower a = lower b)"

definition is_urgent :: "json \<Rightarrow> bool" where
  "is_urgent u = (case u of JStr s \<Rightarrow> caseless_eq s (U ''high'') \<or> caseless_eq s (U ''urgent'') | _ \<Rightarrow> False)"

text \<open>
  The value the heuristic consults, and the urgency it extracts from it: the entry
  \<^verbatim>\<open>urgencyLevel\<close> (the empty string when missing) when the consulted value is a
  mapping, nothing when it is not.
\<close>

definition consulted :: "json \<Rightarrow> json" where
  "consulted d = (case d of JObj kvs \<Rightarrow> (case map_of kvs (U ''result'') of Some v \<Rightarrow> if truthy v then v else d | None \<Rightarrow> d) | _ \<Rightarrow> d)"

definition extracted_urgency :: "json \<Rightarrow> json option" where
  "extracted_urgency d =
     (case consulted d of
        JObj m \<Rightarrow> Some (case map_of m (U ''urgencyLevel'') of Some u \<Rightarrow> u | None \<Rightarrow> JStr [])
      | _ \<Rightarrow> None)"

text \<open>
  The \<^verbatim>\<open>urgencyLevel\<close> entry of a mapping, the empty string when there is none, and the
  follow-up pair that answers an urgency value.
\<close>

definition urgency_entry :: "(pystr \<times> json) list \<Rightarrow> json" where
  "urgency_entry m = (case map_of m (U ''urgencyLevel'') of Some u \<Rightarrow> u | None \<Rightarrow> JStr [])"

definition answer_for :: "clock \<Rightarrow> json \<Rightarrow> pystr \<times> json" where
  "answer_for clk u = (if is_urgent u then calendar_action clk else gmail_action)"

text \<open>The envelope a run returned, if it returned one.\<close>

definition envelope_of :: "(exn + envelope) \<times> call_log \<Rightarrow> envelope option" where
  "envelope_of r = (case fst r of Inl e \<Rightarrow> None | Inr env \<Rightarrow> Some env)"

text \<open>
  A logged call was answered when it gave \<open>_post_json\<close> a value to return, and it
  returned a failure indicator when that value fails the test of \<open>ok\<close>.
\<close>

definition answered :: "request \<times> outcome \<Rightarrow> bool" where
  "answered c = (case snd c of Raised e \<Rightarrow> False | _ \<Rightarrow> True)"


text \<open>
  The wrapper \<^verbatim>\<open>_post_json\<close> puts around a body that is not JSON. For a body of \<open>n\<close>
  letters \<^verbatim>\<open>a\<close>, \<open>wrapper_text n\<close> is the text Python serialises the wrapper to:
  \<open>wrapper_prefix\<close>, which ends with the opening quote of the body, the letters, the
  closing quote and the closing brace.
\<close>

definition text_wrapper :: "pystr \<Rightarrow> json" where
  "text_wrapper text = JObj [(U ''success'', JBool True), (U ''text'', JStr text)]"

definition letters :: "nat \<Rightarrow> pystr" where
  "letters n = replicate n (Chr CHR ''a'')"

definition wrapper_prefix :: pystr where
  "wrapper_prefix =
     U ''{'' @ [Chr (CHR 0x22)] @ U ''success'' @ [Chr (CHR 0x22)] @ U '': true, '' @ [Chr (CHR 0x22)]
     @ U ''text'' @ [Chr (CHR 0x22)] @ U '': '' @ [Chr (CHR 0x22)]"

definition wrapper_text :: "nat \<Rightarrow> pystr" where
  "wrapper_text n = wrapper_prefix @ letters n @ [Chr (CHR 0x22), Chr CHR ''}'']"

section \<open>Dispatch: properties\<close>

lemma U_simps [simp]:
  "U [] = []"
  "U (c # cs) = Chr c # U cs"
  by (simp_all add: U_def)

lemma startswith_iff: "startswith s p \<longleftrightarrow> (\<exists>r. s = p @ r)"
  unfolding startswith_def
  by (metis append_eq_conv_conj append_take_drop_id)


lemma execute_calendar:
  "execute_task lib cfg net (U ''calendar.'' @ action) ps tr log
     = post_json lib cfg net (calendar (CF_ENDPOINTS cfg))
         (JObj [(U ''action'', JStr action), (U ''parameters'', ps)]) tr log"
  by (simp add: execute_task_def post_tool_def tool_body_def startswith_def)

lemma execute_gmail:
  "execute_task lib cfg net (U ''gmail.'' @ action) ps tr log
     = post_json lib cfg net (gmail (CF_ENDPOINTS cfg))
         (JObj [(U ''action'', JStr action), (U ''parameters'', ps)]) tr log"
  by (simp add: execute_task_def post_tool_def tool_body_def startswith_def)

lemma execute_drive:
  "execute_task lib cfg net (U ''drive.'' @ action) ps tr log
     = post_json lib cfg net (drive (CF_ENDPOINTS cfg))
         (JObj [(U ''action'', JStr action), (U ''parameters'', ps)]) tr log"
  by (simp add: execute_task_def post_tool_def tool_body_def startswith_def)

lemma execute_decision:
  "execute_task lib cfg net (U ''decision.'' @ action) ps tr log
     = post_json lib cfg net (decision (CF_ENDPOINTS cfg))
         (JObj [(U ''action'', JStr action), (U ''parameters'', ps)]) tr log"
  by (simp add: execute_task_def post_tool_def tool_body_def startswith_def)

lemma execute_data_pipeline:
  "execute_task lib cfg net (U ''data_pipeline.'' @ action) ps tr log
     = post_json lib cfg net (data_pipeline (CF_ENDPOINTS cfg))
         (JObj [(U ''action'', JStr action), (U ''parameters'', ps)]) tr log"
  by (simp add: execute_task_def post_tool_def tool_body_def startswith_def)

lemma namespace_cases:
  assumes "ns \<in> set namespaces"
  shows "ns = U ''calendar'' \<or> ns = U ''gmail'' \<or> ns = U ''drive'' \<or> ns = U ''decision'' \<or> ns = (U ''data_pipeline'')"
  using assms by (simp add: namespaces_def)

lemma namespace_endpoint_simps:
  "namespace_endpoint cfg (U ''calendar'') = calendar (CF_ENDPOINTS cfg)"
  "namespace_endpoint cfg (U ''gmail'') = gmail (CF_ENDPOINTS cfg)"
  "namespace_endpoint cfg (U ''drive'') = drive (CF_ENDPOINTS cfg)"
  "namespace_endpoint cfg (U ''decision'') = decision (CF_ENDPOINTS cfg)"
  "namespace_endpoint cfg (U ''data_pipeline'') = data_pipeline (CF_ENDPOINTS cfg)"
  by (simp_all add: namespace_endpoint_def)

lemma execute_namespace:
  assumes "ns \<in> set namespaces"
  shows "execute_task lib cfg net (ns @ (U ''.'') @ action) ps tr log
           = post_json lib cfg net (namespace_endpoint cfg ns)
               (JObj [(U ''action'', JStr action), (U ''parameters'', ps)]) tr log"
  using namespace_cases [OF assms]
proof (elim disjE)
  assume "ns = (U ''calendar'')"
  then show ?thesis using execute_calendar [of lib cfg net action ps tr log]
    by (simp add: namespace_endpoint_def)
next
  assume "ns = (U ''gmail'')"
  then show ?thesis using execute_gmail [of lib cfg net action ps tr log]
    by (simp add: namespace_endpoint_def)
next
  assume "ns = (U ''drive'')"
  then show ?thesis using execute_drive [of lib cfg net action ps tr log]
    by (simp add: namespace_endpoint_def)
next
  assume "ns = (U ''decision'')"
  then show ?thesis using execute_decision [of lib cfg net action ps tr log]
    by (simp add: namespace_endpoint_def)
next
  assume "ns = (U ''data_pipeline'')"
  then show ?thesis using execute_data_pipeline [of lib cfg net action ps tr log]
    by (simp add: namespace_endpoint_def)
qed

lemma execute_backend:
  "execute_task lib cfg net (U ''backend.minutes'') ps tr log
     = post_json lib cfg net (BACKEND_BASE cfg @ (U ''/api/agent/minutes/generate'')) ps tr log"
  "execute_task lib cfg net (U ''backend.mindmap'') ps tr log
     = post_json lib cfg net (BACKEND_BASE cfg @ (U ''/api/speech/generate-mindmap'')) ps tr log"
  by (simp_all add: execute_task_def startswith_def)

text \<open>
  C3. A task string that matches none of the seven recognised forms makes the dispatch
  raise an error whose text carries the task string, and the call log is unchanged:
  no request went out.
\<close>

theorem unknown_task_raises:
  assumes "\<not> recognised t"
  shows "execute_task lib cfg net t ps tr log = (Inl (ValueError (U ''Unknown task: '' @ t)), log)"
  using assms by (simp add: recognised_def namespaces_def execute_task_def)

theorem unknown_task_raises_witness:
  "\<not> recognised (U ''unknown.foo'') \<and>
   execute_task json_fixture default_config (net_const (Body [])) (U ''unknown.foo'') (JObj []) (U ''trace'') []
     = (Inl (ValueError (U ''Unknown task: unknown.foo'')), [])"
proof -
  have h: "\<not> recognised (U ''unknown.foo'')"
    by (simp add: recognised_def namespaces_def startswith_def)
  show ?thesis
    using h unknown_task_raises [OF h, of json_fixture default_config "net_const (Body [])" "JObj []" "(U ''trace'')" "[]"]
    by simp
qed



section \<open>The next-action heuristic: properties\<close>

lemma lower_high: "lower (U ''high'') = (U ''high'')" "lower (U ''urgent'') = (U ''urgent'')"
  by (simp_all add: lower_def lower_char_def)

lemma urgency_action_obj:
  "urgency_action clk (JObj m) =
     Some (if is_urgent (case map_of m (U ''urgencyLevel'') of Some u \<Rightarrow> u | None \<Rightarrow> JStr [])
           then calendar_action clk else gmail_action)"
  by (simp add: urgency_action_def is_urgent_def caseless_eq_def lower_high [simplified]
      calendar_action_def gmail_action_def split: option.splits json.splits)

lemma urgency_action_non_obj:
  "truthy v \<Longrightarrow> (\<forall>m. v \<noteq> JObj m) \<Longrightarrow> urgency_action clk v = None"
  by (cases v) (simp_all add: urgency_action_def)

lemma suggest_mapping:
  "suggest_next_action clk (JObj kvs) = urgency_action clk (consulted (JObj kvs))"
  by (simp add: suggest_next_action_def consulted_def split: option.splits)

text \<open>
  C6, as stated, fails where the value under \<^verbatim>\<open>result\<close> is truthy and not a mapping:
  reading \<^verbatim>\<open>urgencyLevel\<close> from it raises, the exception is caught, and the heuristic
  returns no pair at all.
\<close>

theorem heuristic_other_counterexample:
  "suggest_next_action fixed_clock (JObj [(U ''result'', JStr (U ''abc''))]) \<noteq> Some gmail_action
   \<and> suggest_next_action fixed_clock (JObj [(U ''result'', JStr (U ''abc''))]) \<noteq> Some (calendar_action fixed_clock)"
  by (simp add: suggest_next_action_def urgency_action_def)

text \<open>
  C6, amended. For every decision mapping on which the extraction succeeds, the
  heuristic returns the calendar pair \<open>(calendar.get_events, {timeMin, timeMax,
  maxResults: 50})\<close> when the extracted urgency is a string equal up to case to
  \<^verbatim>\<open>high\<close> or \<^verbatim>\<open>urgent\<close>, and the pair \<open>(gmail.search_emails, {query: meeting,
  maxResults: 20})\<close> for every other extracted value (absent, not a string, any other
  string). Where the extraction fails it returns no pair.
\<close>

theorem heuristic_by_urgency:
  "(\<forall>u. extracted_urgency (JObj kvs) = Some u \<longrightarrow>
       suggest_next_action clk (JObj kvs)
         = Some (if is_urgent u then calendar_action clk else gmail_action))
   \<and> (extracted_urgency (JObj kvs) = None \<longrightarrow> suggest_next_action clk (JObj kvs) = None)"
proof (cases "consulted (JObj kvs)")
  case (JObj m)
  then show ?thesis
    by (simp add: suggest_mapping extracted_urgency_def urgency_action_obj)
next
  case JNull
  then show ?thesis by (simp add: consulted_def split: option.splits if_splits)
next
  case (JBool b)
  then have "truthy (JBool b)" by (auto simp: consulted_def split: option.splits if_splits)
  then show ?thesis using JBool
    by (simp add: suggest_mapping extracted_urgency_def urgency_action_non_obj)
next
  case (JInt n)
  then have "truthy (JInt n)" by (auto simp: consulted_def split: option.splits if_splits)
  then show ?thesis using JInt
    by (simp add: suggest_mapping extracted_urgency_def urgency_action_non_obj)
next
  case (JFloat x)
  then have "truthy (JFloat x)" by (auto simp: consulted_def split: option.splits if_splits)
  then show ?thesis using JFloat
    by (simp add: suggest_mapping extracted_urgency_def urgency_action_non_obj)
next
  case (JStr x)
  then have "truthy (JStr x)" by (auto simp: consulted_def split: option.splits if_splits)
  then show ?thesis using JStr
    by (simp add: suggest_mapping extracted_urgency_def urgency_action_non_obj)
next
  case (JArr xs)
  then have "truthy (JArr xs)" by (auto simp: consulted_def split: option.splits if_splits)
  then show ?thesis using JArr
    by (simp add: suggest_mapping extracted_urgency_def urgency_action_non_obj)
qed

theorem heuristic_by_urgency_witness:
  "extracted_urgency (JObj [(U ''result'', JObj [(U ''urgencyLevel'', JStr (U ''High''))])]) = Some (JStr (U ''High''))
   \<and> suggest_next_action fixed_clock (JObj [(U ''result'', JObj [(U ''urgencyLevel'', JStr (U ''High''))])])
       = Some (calendar_action fixed_clock)
   \<and> extracted_urgency (JObj [(U ''result'', JObj [(U ''urgencyLevel'', JStr (U ''low''))])]) = Some (JStr (U ''low''))
   \<and> suggest_next_action fixed_clock (JObj [(U ''result'', JObj [(U ''urgencyLevel'', JStr (U ''low''))])])
       = Some gmail_action
   \<and> extracted_urgency (JObj [(U ''result'', JArr [JInt 1])]) = None
   \<and> suggest_next_action fixed_clock (JObj [(U ''result'', JArr [JInt 1])]) = None"
  using heuristic_by_urgency [of "[(U ''result'', JObj [(U ''urgencyLevel'', JStr (U ''High''))])]" fixed_clock]
    heuristic_by_urgency [of "[(U ''result'', JObj [(U ''urgencyLevel'', JStr (U ''low''))])]" fixed_clock]
    heuristic_by_urgency [of "[(U ''result'', JArr [JInt 1])]" fixed_clock]
  by (simp add: extracted_urgency_def consulted_def is_urgent_def caseless_eq_def lower_def lower_char_def)

lemma answer_for_entry:
  "urgency_action clk (JObj m) = Some (answer_for clk (urgency_entry m))"
  by (simp add: urgency_action_obj answer_for_def urgency_entry_def)

text \<open>
  C7, as stated, fails where the \<^verbatim>\<open>result\<close> key exists with a falsy value (here an
  empty mapping): the nested mapping has no \<^verbatim>\<open>urgencyLevel\<close>, which answers the gmail
  pair, but the heuristic reads the top-level \<^verbatim>\<open>urgencyLevel\<close> and answers the calendar
  pair.
\<close>

theorem urgency_source_counterexample:
  "map_of [(U ''result'', JObj []), (U ''urgencyLevel'', JStr (U ''high''))] (U ''result'') = Some (JObj [])
   \<and> answer_for fixed_clock (urgency_entry []) = gmail_action
   \<and> suggest_next_action fixed_clock (JObj [(U ''result'', JObj []), (U ''urgencyLevel'', JStr (U ''high''))])
       = Some (calendar_action fixed_clock)
   \<and> calendar_action fixed_clock \<noteq> gmail_action"
  by (simp add: suggest_next_action_def urgency_action_def answer_for_def urgency_entry_def is_urgent_def
      caseless_eq_def calendar_action_def gmail_action_def lower_def lower_char_def)

text \<open>
  C7, amended. For every decision mapping: when the \<^verbatim>\<open>result\<close> key exists and its value is
  a non-empty mapping, the heuristic answers for the \<^verbatim>\<open>urgencyLevel\<close> entry of that nested
  mapping (the empty string when it has none), whatever the top-level mapping holds; it
  falls back to the \<^verbatim>\<open>urgencyLevel\<close> entry of the top-level mapping exactly when the
  \<^verbatim>\<open>result\<close> key is missing or its value is falsy; and when the value is truthy and not
  a mapping, no entry can be read and there is no follow-up pair.
\<close>

theorem urgency_source:
  "(\<forall>m. map_of kvs (U ''result'') = Some (JObj m) \<and> m \<noteq> [] \<longrightarrow>
        suggest_next_action clk (JObj kvs) = Some (answer_for clk (urgency_entry m)))
   \<and> (map_of kvs (U ''result'') = None \<or> (\<exists>v. map_of kvs (U ''result'') = Some v \<and> \<not> truthy v) \<longrightarrow>
        suggest_next_action clk (JObj kvs) = Some (answer_for clk (urgency_entry kvs)))
   \<and> (\<forall>v. map_of kvs (U ''result'') = Some v \<and> truthy v \<and> (\<forall>m. v \<noteq> JObj m) \<longrightarrow>
        suggest_next_action clk (JObj kvs) = None)"
proof (intro conjI allI impI)
  fix m assume "map_of kvs (U ''result'') = Some (JObj m) \<and> m \<noteq> []"
  then show "suggest_next_action clk (JObj kvs) = Some (answer_for clk (urgency_entry m))"
    by (simp add: suggest_next_action_def answer_for_entry)
next
  assume "map_of kvs (U ''result'') = None \<or> (\<exists>v. map_of kvs (U ''result'') = Some v \<and> \<not> truthy v)"
  then show "suggest_next_action clk (JObj kvs) = Some (answer_for clk (urgency_entry kvs))"
    by (auto simp: suggest_next_action_def answer_for_entry)
next
  fix v assume "map_of kvs (U ''result'') = Some v \<and> truthy v \<and> (\<forall>m. v \<noteq> JObj m)"
  then show "suggest_next_action clk (JObj kvs) = None"
    by (simp add: suggest_next_action_def urgency_action_non_obj)
qed

theorem urgency_source_witness:
  "map_of [(U ''result'', JObj [(U ''urgencyLevel'', JStr (U ''low''))]), (U ''urgencyLevel'', JStr (U ''urgent''))]
      (U ''result'')
     = Some (JObj [(U ''urgencyLevel'', JStr (U ''low''))])
   \<and> [(U ''urgencyLevel'', JStr (U ''low''))] \<noteq> []
   \<and> suggest_next_action fixed_clock
        (JObj [(U ''result'', JObj [(U ''urgencyLevel'', JStr (U ''low''))]), (U ''urgencyLevel'', JStr (U ''urgent''))])
       = Some gmail_action
   \<and> map_of [(U ''urgencyLevel'', JStr (U ''urgent''))] (U ''result'') = None
   \<and> suggest_next_action fixed_clock (JObj [(U ''urgencyLevel'', JStr (U ''urgent''))])
       = Some (calendar_action fixed_clock)
   \<and> map_of [(U ''result'', JNull), (U ''urgencyLevel'', JStr (U ''urgent''))] (U ''result'') = Some JNull
   \<and> \<not> truthy JNull
   \<and> suggest_next_action fixed_clock (JObj [(U ''result'', JNull), (U ''urgencyLevel'', JStr (U ''urgent''))])
       = Some (calendar_action fixed_clock)
   \<and> map_of [(U ''result'', JInt 7), (U ''urgencyLevel'', JStr (U ''urgent''))] (U ''result'') = Some (JInt 7)
   \<and> truthy (JInt 7)
   \<and> suggest_next_action fixed_clock (JObj [(U ''result'', JInt 7), (U ''urgencyLevel'', JStr (U ''urgent''))])
       = None"
  using urgency_source [of "[(U ''result'', JObj [(U ''urgencyLevel'', JStr (U ''low''))]), (U ''urgencyLevel'', JStr (U ''urgent''))]" fixed_clock]
    urgency_source [of "[(U ''urgencyLevel'', JStr (U ''urgent''))]" fixed_clock]
    urgency_source [of "[(U ''result'', JNull), (U ''urgencyLevel'', JStr (U ''urgent''))]" fixed_clock]
    urgency_source [of "[(U ''result'', JInt 7), (U ''urgencyLevel'', JStr (U ''urgent''))]" fixed_clock]
  by (simp add: answer_for_def urgency_entry_def is_urgent_def caseless_eq_def lower_def lower_char_def)

section \<open>The orchestrator: properties\<close>

lemma post_json_eq:
  "post_json lib cfg net u payload tr log
     = (decode lib (net log (mk_request cfg u payload tr)),
        log @ [(mk_request cfg u payload tr, net log (mk_request cfg u payload tr))])"
  by (simp add: post_json_def Let_def)

lemma query_automatic:
  "explicit_block lib cfg net tr inp (task_or_empty task_opt) (params_or_empty parameters) log0 = (None, errs, log1)
   \<Longrightarrow> query lib cfg net clk tr inp task_opt parameters log0
        = automatic lib cfg net clk tr inp (task_or_empty task_opt) errs log1"
  by (simp add: query_def)

lemma automatic_raise:
  "post_json lib cfg net (decision (CF_ENDPOINTS cfg)) (analysis_payload inp) tr log1 = (Inl e, log2)
   \<Longrightarrow> automatic lib cfg net clk tr inp rt errs log1 = (Inl e, log2)"
  by (simp add: automatic_def)

lemma automatic_ok_raise:
  "post_json lib cfg net (decision (CF_ENDPOINTS cfg)) (analysis_payload inp) tr log1 = (Inr r, log2)
   \<Longrightarrow> ok r = Inl e
   \<Longrightarrow> automatic lib cfg net clk tr inp rt errs log1 = (Inl e, log2)"
  by (simp add: automatic_def)

lemma automatic_failed:
  "post_json lib cfg net (decision (CF_ENDPOINTS cfg)) (analysis_payload inp) tr log1 = (Inr r, log2)
   \<Longrightarrow> ok r = Inr False
   \<Longrightarrow> automatic lib cfg net clk tr inp rt errs log1
         = (Inr \<lparr>traceId = tr, input = inp, routedTask = rt,
                 toolCalls = [decision_call lib inp r], output' = note_output,
                 errors = errs @ [\<lparr>err_task = U ''decision.analyze_situation'', message = Repr r\<rparr>]\<rparr>,
            log2)"
  by (simp add: automatic_def note_output_def)

lemma automatic_none:
  "post_json lib cfg net (decision (CF_ENDPOINTS cfg)) (analysis_payload inp) tr log1 = (Inr r, log2)
   \<Longrightarrow> ok r = Inr True
   \<Longrightarrow> suggest_next_action clk r = None
   \<Longrightarrow> automatic lib cfg net clk tr inp rt errs log1
         = (Inr \<lparr>traceId = tr, input = inp, routedTask = [],
                 toolCalls = [decision_call lib inp r], output' = r, errors = errs\<rparr>,
            log2)"
  by (simp add: automatic_def)

lemma automatic_follow_ok:
  "post_json lib cfg net (decision (CF_ENDPOINTS cfg)) (analysis_payload inp) tr log1 = (Inr r, log2)
   \<Longrightarrow> ok r = Inr True
   \<Longrightarrow> suggest_next_action clk r = Some (at, ap)
   \<Longrightarrow> execute_task lib cfg net at ap tr log2 = (Inr ar, log3)
   \<Longrightarrow> automatic lib cfg net clk tr inp rt errs log1
         = (Inr \<lparr>traceId = tr, input = inp, routedTask = (if rt \<noteq> [] then rt else at),
                 toolCalls = [decision_call lib inp r, \<lparr>task = at, params = ap, result = safe_slice lib ar 6000\<rparr>],
                 output' = r, errors = errs\<rparr>,
            log3)"
  by (simp add: automatic_def)

lemma automatic_follow_raise:
  "post_json lib cfg net (decision (CF_ENDPOINTS cfg)) (analysis_payload inp) tr log1 = (Inr r, log2)
   \<Longrightarrow> ok r = Inr True
   \<Longrightarrow> suggest_next_action clk r = Some (at, ap)
   \<Longrightarrow> execute_task lib cfg net at ap tr log2 = (Inl e, log3)
   \<Longrightarrow> automatic lib cfg net clk tr inp rt errs log1
         = (Inr \<lparr>traceId = tr, input = inp, routedTask = (if rt \<noteq> [] then rt else at),
                 toolCalls = [decision_call lib inp r], output' = r,
                 errors = errs @ [\<lparr>err_task = at, message = Text (str_exn e)\<rparr>]\<rparr>,
            log3)"
  by (simp add: automatic_def)

lemma suggest_task:
  "suggest_next_action clk r = Some (at, ap) \<Longrightarrow> at = U ''calendar.get_events'' \<or> at = (U ''gmail.search_emails'')"
  by (auto simp: suggest_next_action_def urgency_action_def split: sum.splits json.splits if_splits)

lemma ok_failed_iff:
  "ok r = Inr False \<longleftrightarrow>
     (\<not> truthy r \<or> (\<exists>kvs. r = JObj kvs \<and> map_of kvs (U ''success'') = Some (JBool False)))"
  by (cases r) (auto simp: ok_def split: option.splits)

lemma ok_missing_success:
  "kvs \<noteq> [] \<Longrightarrow> map_of kvs (U ''success'') = None \<Longrightarrow> ok (JObj kvs) = Inr True"
  by (simp add: ok_def)

lemma automatic_not_failed_errors:
  assumes P: "post_json lib cfg net (decision (CF_ENDPOINTS cfg)) (analysis_payload inp) tr log1 = (Inr r, log2)"
    and nf: "ok r \<noteq> Inr False"
    and A: "automatic lib cfg net clk tr inp rt errs log1 = (Inr env, lg)"
  shows "\<exists>extra. errors env = errs @ extra \<and> (\<forall>x \<in> set extra. err_task x \<noteq> (U ''decision.analyze_situation''))"
proof (cases "ok r")
  case (Inl e)
  with automatic_ok_raise [OF P Inl] A show ?thesis by simp
next
  case (Inr b)
  with nf have okr: "ok r = Inr True" by (cases b) simp_all
  show ?thesis
  proof (cases "suggest_next_action clk r")
    case None
    from automatic_none [OF P okr None] A have "errors env = errs" by auto
    then show ?thesis by simp
  next
    case (Some p)
    obtain at ap where p: "p = (at, ap)" by (cases p)
    from Some p have S: "suggest_next_action clk r = Some (at, ap)" by simp
    from suggest_task [OF S] have at: "at \<noteq> (U ''decision.analyze_situation'')" by auto
    obtain res log3 where E: "execute_task lib cfg net at ap tr log2 = (res, log3)"
      by (cases "execute_task lib cfg net at ap tr log2")
    show ?thesis
    proof (cases res)
      case (Inl e)
      from automatic_follow_raise [OF P okr S E [unfolded Inl]] A
      have "errors env = errs @ [\<lparr>err_task = at, message = Text (str_exn e)\<rparr>]" by auto
      with at show ?thesis by simp
    next
      case (Inr ar)
      from automatic_follow_ok [OF P okr S E [unfolded Inr]] A have "errors env = errs" by auto
      then show ?thesis by simp
    qed
  qed
qed

text \<open>
  C5. The decision-analysis response is classified as failed exactly when it is falsy,
  or a mapping whose \<^verbatim>\<open>success\<close> entry is the boolean false; a non-empty mapping with no
  \<^verbatim>\<open>success\<close> key counts as success. On the automatic path, when the response is
  classified as failed, \<open>query\<close> returns at once: the error record for
  \<^verbatim>\<open>decision.analyze_situation\<close> is appended, the output is the note, and the call log
  holds the decision request as its last entry, so no further call went out. When it is
  not classified as failed, no error record for \<^verbatim>\<open>decision.analyze_situation\<close> is
  appended.
\<close>

theorem decision_failure_handling:
  assumes E: "explicit_block lib cfg net tr inp (task_or_empty task_opt) (params_or_empty parameters) log0
                = (None, errs, log1)"
    and P: "post_json lib cfg net (decision (CF_ENDPOINTS cfg)) (analysis_payload inp) tr log1 = (Inr r, log2)"
  shows "(ok r = Inr False \<longleftrightarrow>
            (\<not> truthy r \<or> (\<exists>kvs. r = JObj kvs \<and> map_of kvs (U ''success'') = Some (JBool False))))
       \<and> (\<forall>kvs. r = JObj kvs \<and> kvs \<noteq> [] \<and> map_of kvs (U ''success'') = None \<longrightarrow> ok r = Inr True)
       \<and> (ok r = Inr False \<longrightarrow>
            query lib cfg net clk tr inp task_opt parameters log0
              = (Inr \<lparr>traceId = tr, input = inp, routedTask = task_or_empty task_opt,
                      toolCalls = [decision_call lib inp r], output' = note_output,
                      errors = errs @ [\<lparr>err_task = U ''decision.analyze_situation'', message = Repr r\<rparr>]\<rparr>,
                 log1 @ [(mk_request cfg (decision (CF_ENDPOINTS cfg)) (analysis_payload inp) tr,
                          net log1 (mk_request cfg (decision (CF_ENDPOINTS cfg)) (analysis_payload inp) tr))]))
       \<and> (ok r \<noteq> Inr False \<longrightarrow>
            (\<forall>env lg. query lib cfg net clk tr inp task_opt parameters log0 = (Inr env, lg) \<longrightarrow>
               (\<exists>extra. errors env = errs @ extra
                  \<and> (\<forall>x \<in> set extra. err_task x \<noteq> (U ''decision.analyze_situation'')))))"
proof (intro conjI impI allI)
  show "ok r = Inr False \<longleftrightarrow>
          (\<not> truthy r \<or> (\<exists>kvs. r = JObj kvs \<and> map_of kvs (U ''success'') = Some (JBool False)))"
    by (rule ok_failed_iff)
next
  fix kvs assume "r = JObj kvs \<and> kvs \<noteq> [] \<and> map_of kvs (U ''success'') = None"
  then show "ok r = Inr True" by (simp add: ok_missing_success)
next
  assume f: "ok r = Inr False"
  from P have l2: "log2 = log1 @ [(mk_request cfg (decision (CF_ENDPOINTS cfg)) (analysis_payload inp) tr,
                          net log1 (mk_request cfg (decision (CF_ENDPOINTS cfg)) (analysis_payload inp) tr))]"
    by (simp add: post_json_eq)
  show "query lib cfg net clk tr inp task_opt parameters log0
              = (Inr \<lparr>traceId = tr, input = inp, routedTask = task_or_empty task_opt,
                      toolCalls = [decision_call lib inp r], output' = note_output,
                      errors = errs @ [\<lparr>err_task = U ''decision.analyze_situation'', message = Repr r\<rparr>]\<rparr>,
                 log1 @ [(mk_request cfg (decision (CF_ENDPOINTS cfg)) (analysis_payload inp) tr,
                          net log1 (mk_request cfg (decision (CF_ENDPOINTS cfg)) (analysis_payload inp) tr))])"
    unfolding query_automatic [OF E] automatic_failed [OF P f] l2 ..
next
  fix env lg
  assume nf: "ok r \<noteq> Inr False"
    and Q: "query lib cfg net clk tr inp task_opt parameters log0 = (Inr env, lg)"
  from Q have A: "automatic lib cfg net clk tr inp (task_or_empty task_opt) errs log1 = (Inr env, lg)"
    by (simp add: query_automatic [OF E])
  from automatic_not_failed_errors [OF P nf A]
  show "\<exists>extra. errors env = errs @ extra
          \<and> (\<forall>x \<in> set extra. err_task x \<noteq> (U ''decision.analyze_situation''))" .
qed

theorem decision_failure_handling_witness:
  "explicit_block json_fixture default_config (net_const (HTTPError 503 (U ''Service Unavailable''))) (U ''t'') (U ''x'')
      (task_or_empty None) (params_or_empty None) [] = (None, [], [])
   \<and> post_json json_fixture default_config (net_const (HTTPError 503 (U ''Service Unavailable'')))
        (decision (CF_ENDPOINTS default_config)) (analysis_payload (U ''x'')) (U ''t'') []
       = (Inr (JObj [(U ''success'', JBool False), (U ''status'', JInt 503), (U ''error'', JStr (U ''Service Unavailable''))]),
          [(mk_request default_config (decision (CF_ENDPOINTS default_config)) (analysis_payload (U ''x'')) (U ''t''),
            HTTPError 503 (U ''Service Unavailable''))])
   \<and> ok (JObj [(U ''success'', JBool False), (U ''status'', JInt 503), (U ''error'', JStr (U ''Service Unavailable''))])
       = Inr False
   \<and> query json_fixture default_config (net_const (HTTPError 503 (U ''Service Unavailable''))) fixed_clock (U ''t'') (U ''x'') None None []
       = (Inr \<lparr>traceId = U ''t'', input = U ''x'', routedTask = [],
               toolCalls = [decision_call json_fixture (U ''x'')
                  (JObj [(U ''success'', JBool False), (U ''status'', JInt 503), (U ''error'', JStr (U ''Service Unavailable''))])],
               output' = note_output,
               errors = [\<lparr>err_task = U ''decision.analyze_situation'',
                          message = Repr (JObj [(U ''success'', JBool False), (U ''status'', JInt 503),
                                                (U ''error'', JStr (U ''Service Unavailable''))])\<rparr>]\<rparr>,
          [(mk_request default_config (decision (CF_ENDPOINTS default_config)) (analysis_payload (U ''x'')) (U ''t''),
            HTTPError 503 (U ''Service Unavailable''))])"
proof -
  let ?N = "net_const (HTTPError 503 (U ''Service Unavailable''))"
  let ?R = "JObj [(U ''success'', JBool False), (U ''status'', JInt 503), (U ''error'', JStr (U ''Service Unavailable''))]"
  have E: "explicit_block json_fixture default_config ?N (U ''t'') (U ''x'') (task_or_empty None) (params_or_empty None) []
             = (None, [], [])"
    by (simp add: explicit_block_def task_or_empty_def)
  have P: "post_json json_fixture default_config ?N (decision (CF_ENDPOINTS default_config)) (analysis_payload (U ''x'')) (U ''t'') []
             = (Inr ?R, [(mk_request default_config (decision (CF_ENDPOINTS default_config)) (analysis_payload (U ''x'')) (U ''t''),
                          HTTPError 503 (U ''Service Unavailable''))])"
    by (simp add: post_json_eq decode_def net_const_def)
  have F: "ok ?R = Inr False"
    by (simp add: ok_def)
  from decision_failure_handling [OF E P, of fixed_clock] F
  have "query json_fixture default_config ?N fixed_clock (U ''t'') (U ''x'') None None []
       = (Inr \<lparr>traceId = U ''t'', input = U ''x'', routedTask = task_or_empty None,
               toolCalls = [decision_call json_fixture (U ''x'') ?R], output' = note_output,
               errors = [] @ [\<lparr>err_task = U ''decision.analyze_situation'', message = Repr ?R\<rparr>]\<rparr>,
          [] @ [(mk_request default_config (decision (CF_ENDPOINTS default_config)) (analysis_payload (U ''x'')) (U ''t''),
            ?N [] (mk_request default_config (decision (CF_ENDPOINTS default_config)) (analysis_payload (U ''x'')) (U ''t'')))])"
    by blast
  then have "query json_fixture default_config ?N fixed_clock (U ''t'') (U ''x'') None None []
       = (Inr \<lparr>traceId = U ''t'', input = U ''x'', routedTask = [],
               toolCalls = [decision_call json_fixture (U ''x'') ?R], output' = note_output,
               errors = [\<lparr>err_task = U ''decision.analyze_situation'', message = Repr ?R\<rparr>]\<rparr>,
          [(mk_request default_config (decision (CF_ENDPOINTS default_config)) (analysis_payload (U ''x'')) (U ''t''),
            HTTPError 503 (U ''Service Unavailable''))])"
    by (simp add: task_or_empty_def net_const_def)
  with E P F show ?thesis by blast
qed

text \<open>
  C1. The decision call and the test of its response are outside every \<^verbatim>\<open>try\<close> block
  of \<open>query\<close>. When the decision endpoint answers with the JSON text \<^verbatim>\<open>[1]\<close>, which
  the library parses to the list of the number one, the response is a non-empty list,
  \<^verbatim>\<open>_ok\<close> asks it for \<^verbatim>\<open>get\<close>, and the \<^verbatim>\<open>AttributeError\<close> leaves \<open>query\<close>: no
  envelope is returned, and the decision request is the only call that went out.
\<close>

theorem query_raises_on_list_body:
  assumes L: "loads lib (U ''[1]'') = Inr (JArr [JInt 1])"
  shows "query lib default_config (net_const (Body (U ''[1]''))) fixed_clock (U ''t'') (U ''x'') None None []
     = (Inl (no_attribute (JArr [JInt 1]) (U ''get'')),
        [(mk_request default_config (decision (CF_ENDPOINTS default_config)) (analysis_payload (U ''x'')) (U ''t''),
          Body (U ''[1]''))])"
proof -
  have P: "post_json lib default_config (net_const (Body (U ''[1]''))) (decision (CF_ENDPOINTS default_config))
             (analysis_payload (U ''x'')) (U ''t'') []
           = (Inr (JArr [JInt 1]),
              [(mk_request default_config (decision (CF_ENDPOINTS default_config)) (analysis_payload (U ''x'')) (U ''t''),
                Body (U ''[1]''))])"
    using L by (simp add: post_json_eq decode_def net_const_def)
  have K: "ok (JArr [JInt 1]) = Inl (no_attribute (JArr [JInt 1]) (U ''get''))"
    by (simp add: ok_def)
  have E: "explicit_block lib default_config (net_const (Body (U ''[1]''))) (U ''t'') (U ''x'')
             (task_or_empty None) (params_or_empty None) [] = (None, [], [])"
    by (simp add: explicit_block_def task_or_empty_def)
  show ?thesis
    unfolding query_automatic [OF E] automatic_ok_raise [OF P K] ..
qed

theorem query_raises_on_list_body_witness:
  "loads json_fixture (U ''[1]'') = Inr (JArr [JInt 1])
   \<and> query json_fixture default_config (net_const (Body (U ''[1]''))) fixed_clock
        (U ''t'') (U ''x'') None None []
     = (Inl (no_attribute (JArr [JInt 1]) (U ''get'')),
        [(mk_request default_config (decision (CF_ENDPOINTS default_config)) (analysis_payload (U ''x'')) (U ''t''),
          Body (U ''[1]''))])"
proof -
  have L: "loads json_fixture (U ''[1]'') = Inr (JArr [JInt 1])"
    by (simp add: json_fixture_def lib_table_def)
  from query_raises_on_list_body [OF L] L show ?thesis by blast
qed

lemma query_no_task:
  "query lib cfg net clk tr inp None None log1 = automatic lib cfg net clk tr inp [] [] log1"
  by (simp add: query_def explicit_block_def task_or_empty_def)

lemma explicit_block_raise:
  "t \<noteq> [] \<Longrightarrow> execute_task lib cfg net t ps tr log0 = (Inl e, log1)
   \<Longrightarrow> explicit_block lib cfg net tr inp t ps log0
         = (None, [\<lparr>err_task = t, message = Text (str_exn e)\<rparr>], log1)"
  by (simp add: explicit_block_def)

lemma explicit_block_return:
  "t \<noteq> [] \<Longrightarrow> execute_task lib cfg net t ps tr log0 = (Inr res, log1)
   \<Longrightarrow> explicit_block lib cfg net tr inp t ps log0
         = (Some \<lparr>traceId = tr, input = inp, routedTask = t,
                  toolCalls = [\<lparr>task = t, params = ps, result = safe_slice lib res 6000\<rparr>],
                  output' = res, errors = []\<rparr>, [], log1)"
  by (simp add: explicit_block_def)


text \<open>The automatic path, case by case on what the decision call gave.\<close>

lemma automatic_cases:
  obtains
    (raised) e log2 where
      "post_json lib cfg net (decision (CF_ENDPOINTS cfg)) (analysis_payload inp) tr log1 = (Inl e, log2)"
  | (ok_raised) r log2 e where
      "post_json lib cfg net (decision (CF_ENDPOINTS cfg)) (analysis_payload inp) tr log1 = (Inr r, log2)"
      "ok r = Inl e"
  | (failed) r log2 where
      "post_json lib cfg net (decision (CF_ENDPOINTS cfg)) (analysis_payload inp) tr log1 = (Inr r, log2)"
      "ok r = Inr False"
  | (none) r log2 where
      "post_json lib cfg net (decision (CF_ENDPOINTS cfg)) (analysis_payload inp) tr log1 = (Inr r, log2)"
      "ok r = Inr True" "suggest_next_action clk r = None"
  | (follow_ok) r log2 at ap ar log3 where
      "post_json lib cfg net (decision (CF_ENDPOINTS cfg)) (analysis_payload inp) tr log1 = (Inr r, log2)"
      "ok r = Inr True" "suggest_next_action clk r = Some (at, ap)"
      "execute_task lib cfg net at ap tr log2 = (Inr ar, log3)"
  | (follow_raised) r log2 at ap e log3 where
      "post_json lib cfg net (decision (CF_ENDPOINTS cfg)) (analysis_payload inp) tr log1 = (Inr r, log2)"
      "ok r = Inr True" "suggest_next_action clk r = Some (at, ap)"
      "execute_task lib cfg net at ap tr log2 = (Inl e, log3)"
proof -
  obtain dr log2 where P: "post_json lib cfg net (decision (CF_ENDPOINTS cfg)) (analysis_payload inp) tr log1 = (dr, log2)"
    by (cases "post_json lib cfg net (decision (CF_ENDPOINTS cfg)) (analysis_payload inp) tr log1")
  show thesis
  proof (cases dr)
    case (Inl e)
    with P raised show ?thesis by simp
  next
    case (Inr r)
    note R = P [unfolded Inr]
    show ?thesis
    proof (cases "ok r")
      case (Inl e)
      with R ok_raised show ?thesis by simp
    next
      case (Inr b)
      show ?thesis
      proof (cases b)
        case False
        with Inr R failed show ?thesis by simp
      next
        case True
        with Inr have K: "ok r = Inr True" by simp
        show ?thesis
        proof (cases "suggest_next_action clk r")
          case None
          with R K none show ?thesis by simp
        next
          case (Some p)
          obtain at ap where p: "p = (at, ap)" by (cases p)
          obtain res log3 where X: "execute_task lib cfg net at ap tr log2 = (res, log3)"
            by (cases "execute_task lib cfg net at ap tr log2")
          show ?thesis
          proof (cases res)
            case (Inl e)
            with R K Some p X follow_raised show ?thesis by simp
          next
            case (Inr ar)
            with R K Some p X follow_ok show ?thesis by simp
          qed
        qed
      qed
    qed
  qed
qed

text \<open>
  C10, amended. On an invocation that reaches the automatic path and returns: when the
  decision analysis succeeded and the heuristic produced no follow-up pair, the routed
  task is the empty string, also when an explicit task was supplied and its dispatch
  failed; when a follow-up pair was produced, it is the explicit task string when a
  non-empty one was supplied and the follow-up task name otherwise; when the decision
  analysis failed, the heuristic is not consulted and the routed task is the explicit
  task string, or the empty string when none was supplied.
\<close>

theorem routed_task_rule:
  assumes E: "explicit_block lib cfg net tr inp (task_or_empty task_opt) (params_or_empty parameters) log0
                = (None, errs, log1)"
    and P: "post_json lib cfg net (decision (CF_ENDPOINTS cfg)) (analysis_payload inp) tr log1 = (Inr r, log2)"
    and Q: "query lib cfg net clk tr inp task_opt parameters log0 = (Inr env, lg)"
  shows "(ok r = Inr True \<and> suggest_next_action clk r = None \<longrightarrow> routedTask env = [])
       \<and> (\<forall>at ap. ok r = Inr True \<and> suggest_next_action clk r = Some (at, ap) \<longrightarrow>
             routedTask env = (if task_or_empty task_opt \<noteq> [] then task_or_empty task_opt else at))
       \<and> (ok r = Inr False \<longrightarrow> routedTask env = task_or_empty task_opt)"
proof -
  from Q have A: "automatic lib cfg net clk tr inp (task_or_empty task_opt) errs log1 = (Inr env, lg)"
    by (simp add: query_automatic [OF E])
  show ?thesis
  proof (intro conjI impI allI)
    assume h: "ok r = Inr True \<and> suggest_next_action clk r = None"
    from h have K: "ok r = Inr True" and S: "suggest_next_action clk r = None" by simp_all
    from automatic_none [OF P K S, where rt = "task_or_empty task_opt" and errs = errs] A
    show "routedTask env = []" by auto
  next
    fix at ap
    assume h: "ok r = Inr True \<and> suggest_next_action clk r = Some (at, ap)"
    from h have K: "ok r = Inr True" and S: "suggest_next_action clk r = Some (at, ap)" by simp_all
    obtain res log3 where X: "execute_task lib cfg net at ap tr log2 = (res, log3)"
      by (cases "execute_task lib cfg net at ap tr log2")
    show "routedTask env = (if task_or_empty task_opt \<noteq> [] then task_or_empty task_opt else at)"
    proof (cases res)
      case (Inl e)
      from automatic_follow_raise [OF P K S X [unfolded Inl], where rt = "task_or_empty task_opt" and errs = errs] A
      show ?thesis by auto
    next
      case (Inr ar)
      from automatic_follow_ok [OF P K S X [unfolded Inr], where rt = "task_or_empty task_opt" and errs = errs] A
      show ?thesis by auto
    qed
  next
    assume F: "ok r = Inr False"
    from automatic_failed [OF P F, where clk = clk and rt = "task_or_empty task_opt" and errs = errs] A
    show "routedTask env = task_or_empty task_opt" by auto
  qed
qed

lemma execute_unknown:
  "\<not> recognised t \<Longrightarrow> execute_task lib cfg net t ps tr log = (Inl (ValueError (U ''Unknown task: '' @ t)), log)"
  by (simp add: recognised_def namespaces_def execute_task_def)

lemma execute_recognised:
  assumes "recognised t"
  shows "\<exists>u payload. execute_task lib cfg net t ps tr log = post_json lib cfg net u payload tr log"
proof -
  from assms consider (ns) ns where "ns \<in> set namespaces" "startswith t (ns @ (U ''.''))"
    | (minutes) "t = (U ''backend.minutes'')" | (mindmap) "t = (U ''backend.mindmap'')"
    unfolding recognised_def by blast
  then show ?thesis
  proof cases
    case ns
    then obtain action where "t = ns @ (U ''.'') @ action"
      by (auto simp: startswith_iff)
    with execute_namespace [OF ns(1), of lib cfg net action ps tr log] show ?thesis by blast
  next
    case minutes
    with execute_backend(1) [of lib cfg net ps tr log] show ?thesis by blast
  next
    case mindmap
    with execute_backend(2) [of lib cfg net ps tr log] show ?thesis by blast
  qed
qed

lemma execute_task_shape:
  assumes "execute_task lib cfg net t ps tr log = (res, log')"
  shows "(\<not> recognised t \<and> log' = log \<and> res = Inl (ValueError (U ''Unknown task: '' @ t)))
       \<or> (recognised t \<and> (\<exists>c. log' = log @ [c] \<and> res = decode lib (snd c)))"
proof (cases "recognised t")
  case False
  with execute_unknown [OF False, of lib cfg net ps tr log] assms show ?thesis by simp
next
  case True
  from execute_recognised [OF True, of lib cfg net ps tr log] assms
  obtain u payload where "post_json lib cfg net u payload tr log = (res, log')" by auto
  then have "log' = log @ [(mk_request cfg u payload tr, net log (mk_request cfg u payload tr))]"
    and "res = decode lib (net log (mk_request cfg u payload tr))"
    by (simp_all add: post_json_eq)
  with True show ?thesis by auto
qed

lemma decode_Inl: "decode lib out = Inl e \<longleftrightarrow> out = Raised e"
  by (simp add: decode_def split: outcome.splits sum.splits)

text \<open>
  C9, amended. When an explicit task is supplied and its dispatch raises \<open>e\<close>, the run
  continues as a run with no task from the call log the dispatch left: the same calls
  go out, first of them the decision request for the same input, so the explicit task
  is not dispatched again; an exception of that run is the exception of this one; and
  an envelope of that run gives this one's envelope with the same tool calls and
  output, and the record \<open>{task, str(e)}\<close> in front of its errors. The output is the
  decision-analysis result when that result is not a failure, and the note when it is.
\<close>

theorem explicit_failure_falls_through:
  assumes T: "task_opt = Some t" "t \<noteq> []"
    and X: "execute_task lib cfg net t (params_or_empty parameters) tr log0 = (Inl e, log1)"
  shows "snd (query lib cfg net clk tr inp task_opt parameters log0) = snd (query lib cfg net clk tr inp None None log1)
       \<and> (\<forall>x. fst (query lib cfg net clk tr inp None None log1) = Inl x \<longrightarrow>
             fst (query lib cfg net clk tr inp task_opt parameters log0) = Inl x)
       \<and> (\<forall>env0. fst (query lib cfg net clk tr inp None None log1) = Inr env0 \<longrightarrow>
             (\<exists>env. fst (query lib cfg net clk tr inp task_opt parameters log0) = Inr env
                \<and> errors env = \<lparr>err_task = t, message = Text (str_exn e)\<rparr> # errors env0
                \<and> toolCalls env = toolCalls env0 \<and> output' env = output' env0))
       \<and> (\<exists>out rest. snd (query lib cfg net clk tr inp task_opt parameters log0)
             = log1 @ (mk_request cfg (decision (CF_ENDPOINTS cfg)) (analysis_payload inp) tr, out) # rest)
       \<and> (\<forall>env r. fst (query lib cfg net clk tr inp task_opt parameters log0) = Inr env
               \<and> fst (post_json lib cfg net (decision (CF_ENDPOINTS cfg)) (analysis_payload inp) tr log1) = Inr r
             \<longrightarrow> output' env = (if ok r = Inr False then note_output else r))"
proof -
  let ?rec = "\<lparr>err_task = t, message = Text (str_exn e)\<rparr>"
  have Q: "query lib cfg net clk tr inp task_opt parameters log0 = automatic lib cfg net clk tr inp t [?rec] log1"
    using T X by (simp add: query_def task_or_empty_def explicit_block_raise)
  have A: "query lib cfg net clk tr inp None None log1 = automatic lib cfg net clk tr inp [] [] log1"
    by (rule query_no_task)
  let ?Q = "automatic lib cfg net clk tr inp t [?rec] log1"
  let ?A = "automatic lib cfg net clk tr inp [] [] log1"
  have "snd ?Q = snd ?A
       \<and> (\<forall>x. fst ?A = Inl x \<longrightarrow> fst ?Q = Inl x)
       \<and> (\<forall>env0. fst ?A = Inr env0 \<longrightarrow>
             (\<exists>env. fst ?Q = Inr env
                \<and> errors env = ?rec # errors env0
                \<and> toolCalls env = toolCalls env0 \<and> output' env = output' env0))
       \<and> (\<exists>out rest. snd ?Q
             = log1 @ (mk_request cfg (decision (CF_ENDPOINTS cfg)) (analysis_payload inp) tr, out) # rest)
       \<and> (\<forall>env r. fst ?Q = Inr env
               \<and> fst (post_json lib cfg net (decision (CF_ENDPOINTS cfg)) (analysis_payload inp) tr log1) = Inr r
             \<longrightarrow> output' env = (if ok r = Inr False then note_output else r))"
  proof (cases rule: automatic_cases [where lib = lib and cfg = cfg and net = net and inp = inp and tr = tr and ?log1.0 = log1 and clk = clk])
    case (raised x log2)
    then have "log2 = log1 @ [(mk_request cfg (decision (CF_ENDPOINTS cfg)) (analysis_payload inp) tr,
                 net log1 (mk_request cfg (decision (CF_ENDPOINTS cfg)) (analysis_payload inp) tr))]"
      by (simp add: post_json_eq)
    then show ?thesis
      using raised by (simp add: automatic_raise [OF raised])
  next
    case (ok_raised r log2 x)
    then have "log2 = log1 @ [(mk_request cfg (decision (CF_ENDPOINTS cfg)) (analysis_payload inp) tr,
                 net log1 (mk_request cfg (decision (CF_ENDPOINTS cfg)) (analysis_payload inp) tr))]"
      by (simp add: post_json_eq)
    then show ?thesis
      using ok_raised by (simp add: automatic_ok_raise [OF ok_raised])
  next
    case (failed r log2)
    then have "log2 = log1 @ [(mk_request cfg (decision (CF_ENDPOINTS cfg)) (analysis_payload inp) tr,
                 net log1 (mk_request cfg (decision (CF_ENDPOINTS cfg)) (analysis_payload inp) tr))]"
      by (simp add: post_json_eq)
    then show ?thesis
      using failed by (simp add: automatic_failed [OF failed])
  next
    case (none r log2)
    then have "log2 = log1 @ [(mk_request cfg (decision (CF_ENDPOINTS cfg)) (analysis_payload inp) tr,
                 net log1 (mk_request cfg (decision (CF_ENDPOINTS cfg)) (analysis_payload inp) tr))]"
      by (simp add: post_json_eq)
    then show ?thesis
      using none by (simp add: automatic_none [OF none])
  next
    case (follow_ok r log2 at ap ar log3)
    then have l2: "log2 = log1 @ [(mk_request cfg (decision (CF_ENDPOINTS cfg)) (analysis_payload inp) tr,
                 net log1 (mk_request cfg (decision (CF_ENDPOINTS cfg)) (analysis_payload inp) tr))]"
      by (simp add: post_json_eq)
    from execute_task_shape [OF follow_ok(4)] obtain new where "log3 = log2 @ new" by auto
    with l2 show ?thesis
      using follow_ok by (simp add: automatic_follow_ok [OF follow_ok])
  next
    case (follow_raised r log2 at ap x log3)
    then have l2: "log2 = log1 @ [(mk_request cfg (decision (CF_ENDPOINTS cfg)) (analysis_payload inp) tr,
                 net log1 (mk_request cfg (decision (CF_ENDPOINTS cfg)) (analysis_payload inp) tr))]"
      by (simp add: post_json_eq)
    from execute_task_shape [OF follow_raised(4)] obtain new where "log3 = log2 @ new" by auto
    with l2 show ?thesis
      using follow_raised by (simp add: automatic_follow_raise [OF follow_raised])
  qed
  then show ?thesis
    unfolding Q A .
qed

lemma unknown_foo: "\<not> recognised (U ''unknown.foo'')"
  by (simp add: recognised_def namespaces_def startswith_def)

lemma execute_unknown_foo:
  "execute_task lib cfg net (U ''unknown.foo'') ps tr log = (Inl (ValueError (U ''Unknown task: unknown.foo'')), log)"
  using execute_unknown [OF unknown_foo, of lib cfg net ps tr log] by simp

lemma query_unknown_foo:
  "query lib cfg net clk tr inp (Some (U ''unknown.foo'')) parameters log0
     = automatic lib cfg net clk tr inp (U ''unknown.foo'')
         [\<lparr>err_task = U ''unknown.foo'', message = Text (U ''Unknown task: unknown.foo'')\<rparr>] log0"
  by (simp add: query_def Let_def task_or_empty_def explicit_block_def execute_unknown_foo [simplified])

lemma post_json_const:
  "post_json lib cfg (net_const out) u payload tr log = (decode lib out, log @ [(mk_request cfg u payload tr, out)])"
  by (simp add: post_json_eq net_const_def)

theorem explicit_failure_falls_through_witness:
  "Some (U ''unknown.foo'') = Some (U ''unknown.foo'') \<and> (U ''unknown.foo'') \<noteq> []
   \<and> execute_task json_fixture default_config (net_const (URLError (U ''<urlopen error timed out>''))) (U ''unknown.foo'') (params_or_empty None) (U ''t'') []
       = (Inl (ValueError (U ''Unknown task: unknown.foo'')), [])
   \<and> snd (query json_fixture default_config (net_const (URLError (U ''<urlopen error timed out>''))) fixed_clock (U ''t'') (U ''x'') (Some (U ''unknown.foo'')) None [])
       = snd (query json_fixture default_config (net_const (URLError (U ''<urlopen error timed out>''))) fixed_clock (U ''t'') (U ''x'') None None [])"
proof -
  have X: "execute_task json_fixture default_config (net_const (URLError (U ''<urlopen error timed out>''))) (U ''unknown.foo'') (params_or_empty None) (U ''t'') []
       = (Inl (ValueError (U ''Unknown task: unknown.foo'')), [])"
    by (rule execute_unknown_foo)
  have n: "(U ''unknown.foo'') \<noteq> []" by simp
  from explicit_failure_falls_through [OF refl n X, of fixed_clock "U ''x''"] X n show ?thesis by blast
qed

text \<open>
  C9, as stated, fails when the decision analysis fails after the explicit dispatch
  failed: the output is the note, not the decision-analysis result.
\<close>

theorem explicit_failure_output_counterexample:
  "map_option output'
     (envelope_of (query json_fixture default_config (net_const (HTTPError 503 (U ''Service Unavailable''))) fixed_clock
        (U ''t'') (U ''x'') (Some (U ''unknown.foo'')) None []))
     = Some note_output
   \<and> fst (post_json json_fixture default_config (net_const (HTTPError 503 (U ''Service Unavailable'')))
          (decision (CF_ENDPOINTS default_config)) (analysis_payload (U ''x'')) (U ''t'') [])
       = Inr (JObj [(U ''success'', JBool False), (U ''status'', JInt 503), (U ''error'', JStr (U ''Service Unavailable''))])
   \<and> JObj [(U ''success'', JBool False), (U ''status'', JInt 503), (U ''error'', JStr (U ''Service Unavailable''))]
       \<noteq> note_output"
proof -
  let ?R = "JObj [(U ''success'', JBool False), (U ''status'', JInt 503), (U ''error'', JStr (U ''Service Unavailable''))]"
  have P: "post_json json_fixture default_config (net_const (HTTPError 503 (U ''Service Unavailable'')))
             (decision (CF_ENDPOINTS default_config)) (analysis_payload (U ''x'')) (U ''t'') []
           = (Inr ?R, [] @ [(mk_request default_config (decision (CF_ENDPOINTS default_config)) (analysis_payload (U ''x'')) (U ''t''),
                        HTTPError 503 (U ''Service Unavailable''))])"
    by (simp add: post_json_const decode_def)
  have F: "ok ?R = Inr False" by (simp add: ok_def)
  show ?thesis
    unfolding query_unknown_foo automatic_failed [OF P F] P
    by (simp add: envelope_of_def note_output_def)
qed

text \<open>
  C10, as stated, fails on the automatic path when the decision analysis fails: the
  only tool call is the decision call, no follow-up pair was produced, and yet the
  routed task is the explicit task string, not the empty string.
\<close>

theorem routed_task_counterexample:
  "map_option routedTask
     (envelope_of (query json_fixture default_config (net_const (URLError (U ''<urlopen error timed out>''))) fixed_clock
        (U ''t'') (U ''x'') (Some (U ''unknown.foo'')) None []))
     = Some (U ''unknown.foo'')
   \<and> map_option toolCalls
     (envelope_of (query json_fixture default_config (net_const (URLError (U ''<urlopen error timed out>''))) fixed_clock
        (U ''t'') (U ''x'') (Some (U ''unknown.foo'')) None []))
     = Some [decision_call json_fixture (U ''x'') (JObj [(U ''success'', JBool False), (U ''error'', JStr (U ''<urlopen error timed out>''))])]"
proof -
  let ?R = "JObj [(U ''success'', JBool False), (U ''error'', JStr (U ''<urlopen error timed out>''))]"
  have P: "post_json json_fixture default_config (net_const (URLError (U ''<urlopen error timed out>'')))
             (decision (CF_ENDPOINTS default_config)) (analysis_payload (U ''x'')) (U ''t'') []
           = (Inr ?R, [] @ [(mk_request default_config (decision (CF_ENDPOINTS default_config)) (analysis_payload (U ''x'')) (U ''t''),
                        URLError (U ''<urlopen error timed out>''))])"
    by (simp add: post_json_const decode_def)
  have F: "ok ?R = Inr False" by (simp add: ok_def)
  show ?thesis
    unfolding query_unknown_foo automatic_failed [OF P F]
    by (simp add: envelope_of_def)
qed

lemma decode_fine:
  "decode json_fixture (Body (U ''fine'')) = Inr (JObj [(U ''success'', JBool True), (U ''text'', JStr (U ''fine''))])"
  by (simp add: decode_def json_fixture_def lib_table_def quoted_def)

lemma ok_fine: "ok (JObj [(U ''success'', JBool True), (U ''text'', JStr (U ''fine''))]) = Inr True"
  by (simp add: ok_def)

lemma suggest_fine:
  "suggest_next_action clk (JObj [(U ''success'', JBool True), (U ''text'', JStr (U ''fine''))]) = Some gmail_action"
  by (simp add: suggest_next_action_def urgency_action_def gmail_action_def lower_def)

lemma execute_gmail_search:
  "execute_task lib cfg net (U ''gmail.search_emails'') ps tr log
     = post_json lib cfg net (gmail (CF_ENDPOINTS cfg))
         (JObj [(U ''action'', JStr (U ''search_emails'')), (U ''parameters'', ps)]) tr log"
  using execute_gmail [of lib cfg net "(U ''search_emails'')" ps tr log] by simp

theorem routed_task_rule_witness:
  "explicit_block json_fixture default_config (net_const (Body (U ''fine''))) (U ''t'') (U ''x'') (task_or_empty None) (params_or_empty None) []
     = (None, [], [])
   \<and> post_json json_fixture default_config (net_const (Body (U ''fine''))) (decision (CF_ENDPOINTS default_config))
        (analysis_payload (U ''x'')) (U ''t'') []
       = (Inr (JObj [(U ''success'', JBool True), (U ''text'', JStr (U ''fine''))]),
          [(mk_request default_config (decision (CF_ENDPOINTS default_config)) (analysis_payload (U ''x'')) (U ''t''),
            Body (U ''fine''))])
   \<and> ok (JObj [(U ''success'', JBool True), (U ''text'', JStr (U ''fine''))]) = Inr True
   \<and> suggest_next_action fixed_clock (JObj [(U ''success'', JBool True), (U ''text'', JStr (U ''fine''))])
       = Some (U ''gmail.search_emails'', snd gmail_action)
   \<and> map_option routedTask
        (envelope_of (query json_fixture default_config (net_const (Body (U ''fine''))) fixed_clock (U ''t'') (U ''x'') None None []))
       = Some (U ''gmail.search_emails'')"
proof -
  let ?N = "net_const (Body (U ''fine''))"
  let ?W = "JObj [(U ''success'', JBool True), (U ''text'', JStr (U ''fine''))]"
  let ?c1 = "(mk_request default_config (decision (CF_ENDPOINTS default_config)) (analysis_payload (U ''x'')) (U ''t''),
            Body (U ''fine''))"
  have E: "explicit_block json_fixture default_config ?N (U ''t'') (U ''x'') (task_or_empty None) (params_or_empty None) [] = (None, [], [])"
    by (simp add: explicit_block_def task_or_empty_def)
  have P: "post_json json_fixture default_config ?N (decision (CF_ENDPOINTS default_config)) (analysis_payload (U ''x'')) (U ''t'') []
             = (Inr ?W, [?c1])"
    by (simp add: post_json_const decode_fine [simplified])
  have S: "suggest_next_action fixed_clock ?W = Some (U ''gmail.search_emails'', snd gmail_action)"
    using suggest_fine [of fixed_clock] by (simp add: gmail_action_def)
  have X: "execute_task json_fixture default_config ?N (U ''gmail.search_emails'') (snd gmail_action) (U ''t'') [?c1]
             = (Inr ?W, [?c1] @ [(mk_request default_config (gmail (CF_ENDPOINTS default_config))
                  (JObj [(U ''action'', JStr (U ''search_emails'')), (U ''parameters'', snd gmail_action)]) (U ''t''), Body (U ''fine''))])"
    by (simp add: execute_gmail_search [simplified] post_json_const decode_fine [simplified])
  have Q: "query json_fixture default_config ?N fixed_clock (U ''t'') (U ''x'') None None []
             = automatic json_fixture default_config ?N fixed_clock (U ''t'') (U ''x'') (task_or_empty None) [] []"
    by (rule query_automatic [OF E])
  note Q' = Q [unfolded automatic_follow_ok [OF P ok_fine S X]]
  from routed_task_rule [OF E P Q'] ok_fine S
  have "routedTask \<lparr>traceId = U ''t'', input = U ''x'',
           routedTask = if task_or_empty None \<noteq> [] then task_or_empty None else (U ''gmail.search_emails''),
           toolCalls = [decision_call json_fixture (U ''x'') ?W,
              \<lparr>task = U ''gmail.search_emails'', params = snd gmail_action, result = safe_slice json_fixture ?W 6000\<rparr>],
           output' = ?W, errors = []\<rparr>
        = (if task_or_empty None \<noteq> [] then task_or_empty None else (U ''gmail.search_emails''))"
    by blast
  with E P ok_fine S Q' show ?thesis
    by (simp add: envelope_of_def task_or_empty_def)
qed









lemma answered_simps:
  "answered (q, Body text)" "answered (q, HTTPError code reason)" "answered (q, URLError m)"
  "\<not> answered (q, Raised e)"
  by (simp_all add: answered_def)




section \<open>Truncation: properties\<close>

lemma length_wrapper_text: "length (wrapper_text n) = n + 29"
  by (simp add: wrapper_text_def wrapper_prefix_def letters_def)

lemma brace_in_wrapper_text: "Chr CHR ''{'' \<in> set (wrapper_text n)"
  by (simp add: wrapper_text_def wrapper_prefix_def)

lemma brace_not_in_letters: "Chr CHR ''{'' \<notin> set (letters n)"
  by (simp add: letters_def)

lemma wrapper_text_not_letters: "wrapper_text n \<noteq> letters m"
  using brace_in_wrapper_text [of n] brace_not_in_letters [of m] by metis

lemma execute_drive_read:
  "execute_task lib cfg net (U ''drive.read'') ps tr log
     = post_json lib cfg net (drive (CF_ENDPOINTS cfg))
         (JObj [(U ''action'', JStr (U ''read'')), (U ''parameters'', ps)]) tr log"
  using execute_drive [of lib cfg net "U ''read''" ps tr log] by simp

lemma decode_not_json:
  "isl (loads lib text) \<Longrightarrow> decode lib (Body text) = Inr (text_wrapper text)"
  by (cases "loads lib text") (simp_all add: decode_def text_wrapper_def)

lemma safe_slice_cut_fails:
  "dumps lib obj = Inr text \<Longrightarrow> limit < length text \<Longrightarrow> isl (loads lib (take limit text))
   \<Longrightarrow> safe_slice lib obj limit = obj"
  by (cases "loads lib (take limit text)") (simp_all add: safe_slice_def)

text \<open>
  C8. An endpoint answers \<^verbatim>\<open>drive.read\<close> with 7000 letters. Python's \<^verbatim>\<open>json\<close> module
  does not parse them, serialises the wrapper around them to \<open>wrapper_text 7000\<close>,
  which has 7029 characters, over the limit of 6000, and does not parse the first 6000
  characters of that text, which leave a string literal open. For every library that
  does the same on these three inputs, \<^verbatim>\<open>_safe_slice\<close> falls into its handler and
  returns the object itself: the tool-call record holds the whole response, as the
  output does.
\<close>

theorem oversized_result_not_truncated:
  assumes B: "isl (loads lib (letters 7000))"
    and D: "dumps lib (text_wrapper (letters 7000)) = Inr (wrapper_text 7000)"
    and T: "isl (loads lib (take 6000 (wrapper_text 7000)))"
  shows "map_option toolCalls
     (envelope_of (query lib default_config (net_const (Body (letters 7000))) fixed_clock
        (U ''t'') (U ''x'') (Some (U ''drive.read'')) None []))
     = Some [\<lparr>task = U ''drive.read'', params = JObj [], result = text_wrapper (letters 7000)\<rparr>]
   \<and> map_option output'
     (envelope_of (query lib default_config (net_const (Body (letters 7000))) fixed_clock
        (U ''t'') (U ''x'') (Some (U ''drive.read'')) None []))
     = Some (text_wrapper (letters 7000))
   \<and> length (wrapper_text 7000) = 7029"
proof -
  let ?N = "net_const (Body (letters 7000))"
  let ?c = "(mk_request default_config (drive (CF_ENDPOINTS default_config))
               (JObj [(U ''action'', JStr (U ''read'')), (U ''parameters'', JObj [])]) (U ''t''),
             Body (letters 7000))"
  have X: "execute_task lib default_config ?N (U ''drive.read'') (JObj []) (U ''t'') []
             = (Inr (text_wrapper (letters 7000)), [] @ [?c])"
    by (simp only: execute_drive_read post_json_const decode_not_json [OF B])
  have n: "U ''drive.read'' \<noteq> []" by simp
  have len: "length (wrapper_text 7000) = 7029" by (simp add: length_wrapper_text)
  have S: "safe_slice lib (text_wrapper (letters 7000)) 6000 = text_wrapper (letters 7000)"
    using safe_slice_cut_fails [OF D _ T] len by simp
  have E: "explicit_block lib default_config ?N (U ''t'') (U ''x'') (task_or_empty (Some (U ''drive.read'')))
             (params_or_empty None) []
           = (Some \<lparr>traceId = U ''t'', input = U ''x'', routedTask = U ''drive.read'',
                    toolCalls = [\<lparr>task = U ''drive.read'', params = JObj [],
                                  result = safe_slice lib (text_wrapper (letters 7000)) 6000\<rparr>],
                    output' = text_wrapper (letters 7000), errors = []\<rparr>, [], [] @ [?c])"
    using explicit_block_return [OF n X, of "U ''x''"]
    by (simp add: task_or_empty_def params_or_empty_def)
  have "query lib default_config ?N fixed_clock (U ''t'') (U ''x'') (Some (U ''drive.read'')) None []
          = (Inr \<lparr>traceId = U ''t'', input = U ''x'', routedTask = U ''drive.read'',
                  toolCalls = [\<lparr>task = U ''drive.read'', params = JObj [],
                                result = text_wrapper (letters 7000)\<rparr>],
                  output' = text_wrapper (letters 7000), errors = []\<rparr>, [] @ [?c])"
    unfolding query_def Let_def E S by simp
  then show ?thesis
    using len by (simp add: envelope_of_def)
qed

theorem oversized_result_not_truncated_witness:
  "isl (loads (lib_table [(wrapper_text 7000, text_wrapper (letters 7000))]) (letters 7000))
   \<and> dumps (lib_table [(wrapper_text 7000, text_wrapper (letters 7000))]) (text_wrapper (letters 7000))
       = Inr (wrapper_text 7000)
   \<and> isl (loads (lib_table [(wrapper_text 7000, text_wrapper (letters 7000))]) (take 6000 (wrapper_text 7000)))
   \<and> map_option toolCalls
       (envelope_of (query (lib_table [(wrapper_text 7000, text_wrapper (letters 7000))]) default_config
          (net_const (Body (letters 7000))) fixed_clock (U ''t'') (U ''x'') (Some (U ''drive.read'')) None []))
       = Some [\<lparr>task = U ''drive.read'', params = JObj [], result = text_wrapper (letters 7000)\<rparr>]
   \<and> map_option output'
       (envelope_of (query (lib_table [(wrapper_text 7000, text_wrapper (letters 7000))]) default_config
          (net_const (Body (letters 7000))) fixed_clock (U ''t'') (U ''x'') (Some (U ''drive.read'')) None []))
       = Some (text_wrapper (letters 7000))
   \<and> length (wrapper_text 7000) = 7029"
proof -
  let ?L = "lib_table [(wrapper_text 7000, text_wrapper (letters 7000))]"
  have B: "isl (loads ?L (letters 7000))"
    by (simp add: lib_table_def wrapper_text_not_letters [THEN not_sym])
  have D: "dumps ?L (text_wrapper (letters 7000)) = Inr (wrapper_text 7000)"
    by (simp add: lib_table_def)
  have T: "isl (loads ?L (take 6000 (wrapper_text 7000)))"
    by (simp add: lib_table_def length_wrapper_text)
  from oversized_result_not_truncated [OF B D T] B D T show ?thesis by blast
qed

end
